theory Spec2Isabelle
  imports Main "HOL-Library.Multiset"
begin

section \<open>Python text\<close>

text \<open>
  A Python \<open>str\<close> is a sequence of code points; it is modelled as a \<open>string\<close> whose
  characters are the code points below 256 (Latin-1), so \<open>length\<close> is Python's \<open>len\<close>.
  Text with code points from 256 on is outside the model.
\<close>

definition isspace :: "char \<Rightarrow> bool" where
  \<comment> \<open>\<open>str.isspace\<close> and the pattern \<open>\s\<close> on the code points below 256\<close>
  "isspace c = (let n = (of_char c :: nat) in
     (9 \<le> n \<and> n \<le> 13) \<or> (28 \<le> n \<and> n \<le> 32) \<or> n = 133 \<or> n = 160)"

definition isdigit :: "char \<Rightarrow> bool" where
  \<comment> \<open>the pattern \<open>\d\<close> on the code points below 256\<close>
  "isdigit c = (let n = (of_char c :: nat) in 48 \<le> n \<and> n \<le> 57)"

definition lower_char :: "char \<Rightarrow> char" where
  "lower_char c = (let n = (of_char c :: nat) in
     if (65 \<le> n \<and> n \<le> 90) \<or> (192 \<le> n \<and> n \<le> 222 \<and> n \<noteq> 215)
     then char_of (n + 32) else c)"

definition lower :: "string \<Rightarrow> string" where
  "lower s = map lower_char s"

definition strip :: "string \<Rightarrow> string" where
  "strip s = rev (dropWhile isspace (rev (dropWhile isspace s)))"

fun startswith :: "string \<Rightarrow> string \<Rightarrow> bool" where
  "startswith s [] = True"
| "startswith [] (p # ps) = False"
| "startswith (c # cs) (p # ps) = (c = p \<and> startswith cs ps)"

fun contains :: "string \<Rightarrow> string \<Rightarrow> bool" where
  \<comment> \<open>\<open>sub in s\<close>\<close>
  "contains [] sub = (sub = [])"
| "contains (c # cs) sub = (startswith (c # cs) sub \<or> contains cs sub)"

fun split_from :: "string \<Rightarrow> string \<Rightarrow> string \<Rightarrow> string list" where
  \<comment> \<open>\<open>s.split(sep)\<close> for a non-empty \<open>sep\<close>; \<open>acc\<close> is the piece read so far, reversed\<close>
  "split_from sep acc [] = [rev acc]"
| "split_from sep acc (c # cs) =
     (if sep \<noteq> [] \<and> startswith (c # cs) sep
      then rev acc # split_from sep [] (drop (length sep - 1) cs)
      else split_from sep (c # acc) cs)"

definition split :: "string \<Rightarrow> string \<Rightarrow> string list" where
  "split s sep = split_from sep [] s"

fun find_from :: "nat \<Rightarrow> string \<Rightarrow> char \<Rightarrow> int" where
  "find_from i [] x = - 1"
| "find_from i (c # cs) x = (if c = x then int i else find_from (Suc i) cs x)"

definition find :: "string \<Rightarrow> char \<Rightarrow> int" where
  \<comment> \<open>\<open>s.find(x)\<close>: the first index of \<open>x\<close>, or -1\<close>
  "find s x = find_from 0 s x"

definition rfind :: "string \<Rightarrow> char \<Rightarrow> int" where
  \<comment> \<open>\<open>s.rfind(x)\<close>: the last index of \<open>x\<close>, or -1\<close>
  "rfind s x = (let r = find_from 0 (rev s) x in
     if r = - 1 then - 1 else int (length s) - 1 - r)"

definition slice :: "'a list \<Rightarrow> int \<Rightarrow> int \<Rightarrow> 'a list" where
  \<comment> \<open>\<open>s[i:j]\<close> for \<open>0 \<le> i\<close> and \<open>0 \<le> j\<close>\<close>
  "slice s i j = take (nat j - nat i) (drop (nat i) s)"

section \<open>Python values\<close>

datatype py_error =
    KeyError | TypeError | IndexError | SyntaxError | NameError | AttributeError
  | OtherException
  | SystemExit | KeyboardInterrupt

definition is_Exception :: "py_error \<Rightarrow> bool" where
  \<comment> \<open>what \<open>except Exception\<close> catches: every class but the two that derive from
     \<open>BaseException\<close> alone\<close>
  "is_Exception e = (e \<noteq> SystemExit \<and> e \<noteq> KeyboardInterrupt)"

text \<open>
  The values \<open>json.loads\<close> builds: \<open>None\<close>, \<open>bool\<close>, \<open>int\<close>, \<open>float\<close> (kept as the
  literal's text; nothing here computes with it), \<open>str\<close>, \<open>list\<close> and \<open>dict\<close>. A dict
  is an association list in insertion order with distinct keys.
\<close>

datatype json =
    JNull
  | JBool bool
  | JInt int
  | JFloat string
  | JStr string
  | JArr "json list"
  | JObj "(string \<times> json) list"

type_synonym dict = "(string \<times> json) list"

definition getitem :: "dict \<Rightarrow> string \<Rightarrow> py_error + json" where
  \<comment> \<open>\<open>d[k]\<close>\<close>
  "getitem d k = (case map_of d k of None \<Rightarrow> Inl KeyError | Some v \<Rightarrow> Inr v)"

definition get_default :: "dict \<Rightarrow> string \<Rightarrow> json \<Rightarrow> json" where
  \<comment> \<open>\<open>d.get(k, default)\<close>\<close>
  "get_default d k dflt = (case map_of d k of None \<Rightarrow> dflt | Some v \<Rightarrow> v)"

fun setitem :: "('k \<times> 'v) list \<Rightarrow> 'k \<Rightarrow> 'v \<Rightarrow> ('k \<times> 'v) list" where
  \<comment> \<open>\<open>d[k] = v\<close>: an existing key keeps its place, a new one goes last\<close>
  "setitem [] k v = [(k, v)]"
| "setitem ((k', v') # d) k v =
     (if k' = k then (k, v) # d else (k', v') # setitem d k v)"

definition py_len :: "json \<Rightarrow> py_error + nat" where
  \<comment> \<open>\<open>len(x)\<close>\<close>
  "py_len x = (case x of
       JStr s \<Rightarrow> Inr (length s)
     | JArr xs \<Rightarrow> Inr (length xs)
     | JObj d \<Rightarrow> Inr (length d)
     | _ \<Rightarrow> Inl TypeError)"

definition head_slice :: "json \<Rightarrow> nat \<Rightarrow> py_error + json" where
  \<comment> \<open>\<open>x[:n]\<close>; slicing a dict raises (TypeError, KeyError from Python 3.12 on)\<close>
  "head_slice x n = (case x of
       JStr s \<Rightarrow> Inr (JStr (take n s))
     | JArr xs \<Rightarrow> Inr (JArr (take n xs))
     | _ \<Rightarrow> Inl TypeError)"

text \<open>
  The analysis result, with the two entries the functions below read (the entries
  \<open>'query'\<close> and \<open>'result'\<close> are read by none of them).
\<close>

record analysis_result =
  summary :: string
  original_question :: string

section \<open>Content Enhancer\<close>

definition bullet_class :: "char \<Rightarrow> bool" where
  \<comment> \<open>the class \<open>[\<bullet>\-*... \d+\.\s]\<close> of \<open>enhance_slide_content\<close>; its six bullet
     glyphs are code points from 8226 on, so below 256 there remain
     \<open>-\<close>, \<open>*\<close>, \<open>+\<close>, \<open>.\<close>, the digits and the white space\<close>
  "bullet_class c =
     (c = CHR ''-'' \<or> c = CHR ''*'' \<or> isdigit c \<or> c = CHR ''+'' \<or> c = CHR ''.'' \<or> isspace c)"

definition clean_line :: "string \<Rightarrow> string" where
  \<comment> \<open>\<open>line.strip()\<close>, then \<open>re.sub(r'^[...]+', '', line).strip()\<close>\<close>
  "clean_line line = strip (dropWhile bullet_class (strip line))"

definition enhanced_points :: "string \<Rightarrow> string list" where
  \<comment> \<open>the loop over \<open>response.split('\n')\<close>, for the text \<open>ai(prompt)\<close> returned\<close>
  "enhanced_points answer =
     filter (\<lambda>line. line \<noteq> [] \<and> length line > 10)
       (map clean_line (split (strip answer) [CHR 0x0A]))"

definition enhance_slide_content ::
  "dict \<Rightarrow> analysis_result \<Rightarrow> string \<Rightarrow> py_error + dict" where
  \<comment> \<open>\<open>answer\<close> is what \<open>ai(prompt)\<close> returns. Building the prompt reads
     \<open>slide['title']\<close>, \<open>slide['type']\<close> and \<open>len(outline_points)\<close>, which may raise.\<close>
  "enhance_slide_content slide analysis answer =
     (let outline_points = get_default slide ''content'' (JArr []) in
      case getitem slide ''title'' of Inl e \<Rightarrow> Inl e | Inr _ \<Rightarrow>
     (case getitem slide ''type'' of Inl e \<Rightarrow> Inl e | Inr _ \<Rightarrow>
     (case py_len outline_points of Inl e \<Rightarrow> Inl e | Inr _ \<Rightarrow>
     (let points = enhanced_points answer in
      if points \<noteq> []
      then Inr (setitem slide ''content'' (JArr (map JStr (take 4 points))))
      else (case head_slice outline_points 4 of
              Inl e \<Rightarrow> Inl e
            | Inr first \<Rightarrow> Inr (setitem slide ''content'' first))))))"

section \<open>Skeleton Synthesizer\<close>

text \<open>
  \<open>json.loads\<close> is a parameter of \<open>create_ppt_skeleton\<close>: a function from the text to
  the value read, \<open>None\<close> when it raises. \<open>json_loads\<close> below is one such function, for
  running the code on a given answer. It reads the JSON texts made of objects, arrays,
  strings (with the one-letter escapes), integers, \<open>true\<close>, \<open>false\<close> and \<open>null\<close>, as
  \<open>json.loads\<close> reads them, and rejects every other text.
\<close>

definition json_ws :: "char \<Rightarrow> bool" where
  "json_ws c = (c = CHR '' '' \<or> c = CHR 0x09 \<or> c = CHR 0x0A \<or> c = CHR 0x0D)"

definition skip_ws :: "string \<Rightarrow> string" where
  "skip_ws s = dropWhile json_ws s"

definition unescape :: "char \<Rightarrow> char option" where
  "unescape e =
     (if e = CHR 0x22 \<or> e = CHR 0x5C \<or> e = CHR ''/'' then Some e
      else if e = CHR ''b'' then Some (CHR 0x08)
      else if e = CHR ''f'' then Some (CHR 0x0C)
      else if e = CHR ''n'' then Some (CHR 0x0A)
      else if e = CHR ''r'' then Some (CHR 0x0D)
      else if e = CHR ''t'' then Some (CHR 0x09)
      else None)"

fun scan_string :: "string \<Rightarrow> string \<Rightarrow> (string \<times> string) option" where
  \<comment> \<open>the text after an opening quote; \<open>acc\<close> is the string read so far, reversed\<close>
  "scan_string acc [] = None"
| "scan_string acc [c] = (if c = CHR 0x22 then Some (rev acc, []) else None)"
| "scan_string acc (c # e # r) =
     (if c = CHR 0x22 then Some (rev acc, e # r)
      else if c = CHR 0x5C then
        (case unescape e of None \<Rightarrow> None | Some x \<Rightarrow> scan_string (x # acc) r)
      else if (of_char c :: nat) < 32 then None
      else scan_string (c # acc) (e # r))"

definition scan_int :: "string \<Rightarrow> (json \<times> string) option" where
  "scan_int s =
     (let neg = startswith s ''-'';
          t = (if neg then drop 1 s else s);
          ds = takeWhile isdigit t
      in if ds = [] then None
         else let ip = (if hd ds = CHR ''0'' then ''0'' else ds);
                  v = foldl (\<lambda>a c. 10 * a + (int (of_char c) - 48)) 0 ip
              in Some (JInt (if neg then - v else v), drop (length ip) t))"

fun parse_value :: "nat \<Rightarrow> string \<Rightarrow> (json \<times> string) option"
  and parse_elements :: "nat \<Rightarrow> json list \<Rightarrow> string \<Rightarrow> (json \<times> string) option"
  and parse_members :: "nat \<Rightarrow> dict \<Rightarrow> string \<Rightarrow> (json \<times> string) option"
where
  "parse_value 0 s = None"
| "parse_value (Suc n) [] = None"
| "parse_value (Suc n) (c # cs) =
     (if c = CHR ''{'' then
        (case skip_ws cs of
           [] \<Rightarrow> None
         | d # r \<Rightarrow> if d = CHR ''}'' then Some (JObj [], r) else parse_members n [] (d # r))
      else if c = CHR ''['' then
        (case skip_ws cs of
           [] \<Rightarrow> None
         | d # r \<Rightarrow> if d = CHR '']'' then Some (JArr [], r) else parse_elements n [] (d # r))
      else if c = CHR 0x22 then
        (case scan_string [] cs of None \<Rightarrow> None | Some (t, r) \<Rightarrow> Some (JStr t, r))
      else if startswith (c # cs) ''null'' then Some (JNull, drop 3 cs)
      else if startswith (c # cs) ''true'' then Some (JBool True, drop 3 cs)
      else if startswith (c # cs) ''false'' then Some (JBool False, drop 4 cs)
      else scan_int (c # cs))"
| "parse_elements 0 acc s = None"
| "parse_elements (Suc n) acc s =
     (case parse_value n s of
        None \<Rightarrow> None
      | Some (v, r) \<Rightarrow>
          (case skip_ws r of
             [] \<Rightarrow> None
           | d # r' \<Rightarrow>
               if d = CHR '','' then parse_elements n (v # acc) (skip_ws r')
               else if d = CHR '']'' then Some (JArr (rev (v # acc)), r')
               else None))"
| "parse_members 0 acc s = None"
| "parse_members (Suc n) acc [] = None"
| "parse_members (Suc n) acc (c # cs) =
     (if c \<noteq> CHR 0x22 then None
      else case scan_string [] cs of
        None \<Rightarrow> None
      | Some (k, r) \<Rightarrow>
          (case skip_ws r of
             [] \<Rightarrow> None
           | d # r1 \<Rightarrow>
               if d \<noteq> CHR '':'' then None
               else (case parse_value n (skip_ws r1) of
                  None \<Rightarrow> None
                | Some (v, r2) \<Rightarrow>
                    (case skip_ws r2 of
                       [] \<Rightarrow> None
                     | e # r3 \<Rightarrow>
                         if e = CHR '','' then parse_members n (setitem acc k v) (skip_ws r3)
                         else if e = CHR ''}'' then Some (JObj (setitem acc k v), r3)
                         else None))))"

definition json_loads :: "string \<Rightarrow> json option" where
  \<comment> \<open>the fuel bounds the depth of the calls, which is at most twice the length of the text\<close>
  "json_loads s =
     (case parse_value (2 * length s + 2) (skip_ws s) of
        None \<Rightarrow> None
      | Some (v, r) \<Rightarrow> if skip_ws r = [] then Some v else None)"

definition slide_entry :: "int \<Rightarrow> string \<Rightarrow> string \<Rightarrow> string list \<Rightarrow> json" where
  "slide_entry n title type content =
     JObj [(''slide_no'', JInt n), (''title'', JStr title), (''type'', JStr type),
           (''content'', JArr (map JStr content))]"

definition fallback_skeleton :: "analysis_result \<Rightarrow> json" where
  \<comment> \<open>the literal of the \<open>except\<close> branch of \<open>create_ppt_skeleton\<close>\<close>
  "fallback_skeleton analysis = JObj [(''slides'', JArr
     [slide_entry 1 (''Executive Summary: '' @ take 35 (original_question analysis)) ''title''
        [''Key insights and findings from comprehensive data analysis''],
      slide_entry 2 ''Data Overview & Analysis Approach'' ''content''
        [''Dataset scope and key characteristics'',
         ''Analytical methodology and tools applied'',
         ''Data quality assessment and validation''],
      slide_entry 3 ''Primary Data Insights'' ''chart''
        [''Most significant patterns discovered in data'',
         ''Critical trends affecting business outcomes'',
         ''Key performance indicators and metrics''],
      slide_entry 4 ''Detailed Analysis Results'' ''chart''
        [''In-depth examination of key variables'',
         ''Correlation and causation relationships found'',
         ''Predictive insights and future implications''],
      slide_entry 5 ''Strategic Recommendations'' ''content''
        [''Primary business recommendations based on data'',
         ''Immediate action items for implementation'',
         ''Long-term strategic opportunities identified'']])]"

definition extract_json :: "string \<Rightarrow> py_error + string" where
  \<comment> \<open>the cleanup of \<open>create_ppt_skeleton\<close> between the call of \<open>ai\<close> and \<open>json.loads\<close>;
     \<open>answer\<close> is what \<open>ai(prompt)\<close> returns\<close>
  "extract_json answer =
     (let response = strip answer;
          fenced =
            (if contains response ''```''
             then (case split response ''```'' of
                     _ # part # _ \<Rightarrow>
                       (let r = strip part in
                        Inr (if startswith r ''json'' then strip (drop 4 r) else r))
                   | _ \<Rightarrow> Inl IndexError)
             else Inr response)
      in case fenced of
           Inl e \<Rightarrow> Inl e
         | Inr response \<Rightarrow>
             (let start = find response (CHR ''{'');
                  end = rfind response (CHR ''}'') + 1
              in Inr (if start \<noteq> - 1 \<and> end > start then slice response start end
                      else response)))"

definition create_ppt_skeleton ::
  "(string \<Rightarrow> json option) \<Rightarrow> analysis_result \<Rightarrow> string \<Rightarrow> py_error + json" where
  "create_ppt_skeleton loads analysis answer =
     (case extract_json answer of
        Inl e \<Rightarrow> Inl e
      | Inr response \<Rightarrow>
          (case loads response of
             Some skeleton \<Rightarrow> Inr skeleton
           | None \<Rightarrow> Inr (fallback_skeleton analysis)))"

definition slide_field :: "string \<Rightarrow> json \<Rightarrow> json option" where
  "slide_field k s = (case s of JObj d \<Rightarrow> map_of d k | _ \<Rightarrow> None)"

definition slides_of :: "json \<Rightarrow> json list option" where
  \<comment> \<open>\<open>skeleton['slides']\<close> when it is a list\<close>
  "slides_of skeleton =
     (case slide_field ''slides'' skeleton of Some (JArr ss) \<Rightarrow> Some ss | _ \<Rightarrow> None)"

definition follows_template :: "json \<Rightarrow> bool" where
  \<comment> \<open>five slides, numbered 1 to 5, of the types title, content, chart, chart, content\<close>
  "follows_template skeleton =
     (case slides_of skeleton of
        None \<Rightarrow> False
      | Some ss \<Rightarrow>
          length ss = 5
        \<and> map (slide_field ''slide_no'') ss = map (Some \<circ> JInt) [1, 2, 3, 4, 5]
        \<and> map (slide_field ''type'') ss =
            map (Some \<circ> JStr) [''title'', ''content'', ''chart'', ''chart'', ''content''])"

section \<open>Datasets and the Query Executor\<close>

text \<open>
  A pandas \<open>DataFrame\<close>: the column labels with the dtype of each column (numeric or
  not), and the rows, each with one cell per column. Labels are distinct, so a column is
  addressed by its position. Numeric cells are integers: NaN and rounding are outside
  the model.
\<close>

datatype cell = Num int | Txt string

datatype dtype = Numeric | Object

record dataframe =
  columns :: "(string \<times> dtype) list"
  rows :: "cell list list"

definition head :: "dataframe \<Rightarrow> nat \<Rightarrow> dataframe" where
  \<comment> \<open>\<open>df.head(n)\<close>\<close>
  "head df n = df\<lparr>rows := take n (rows df)\<rparr>"

definition num :: "cell \<Rightarrow> int" where
  "num c = (case c of Num v \<Rightarrow> v | Txt _ \<Rightarrow> 0)"

definition nlargest :: "dataframe \<Rightarrow> nat \<Rightarrow> nat \<Rightarrow> dataframe" where
  \<comment> \<open>\<open>df.nlargest(n, col)\<close> for the column at position \<open>y\<close>: the rows in descending
     order of that column, equal values in their order of appearance, cut to \<open>n\<close>\<close>
  "nlargest df n y = df\<lparr>rows := take n (sort_key (\<lambda>r. - num (r ! y)) (rows df))\<rparr>"

function strip_fences :: "string \<Rightarrow> string" where
  \<comment> \<open>\<open>re.sub(r'```.*?\n|```', '', query)\<close>: a fence goes with the rest of its line and
     the line feed when a line feed follows, and alone otherwise\<close>
  "strip_fences [] = []"
| "strip_fences (c # cs) =
     (if startswith (c # cs) ''```''
      then (let r = drop 2 cs in
            if CHR 0x0A \<in> set r
            then strip_fences (drop 1 (dropWhile (\<lambda>x. x \<noteq> CHR 0x0A) r))
            else strip_fences r)
      else c # strip_fences cs)"
  by pat_completeness auto
termination
proof (relation "measure length")
  show "wf (measure length)" by simp
next
  fix c :: char and cs r :: string
  assume "r = drop 2 cs"
  then have "length (dropWhile (\<lambda>x. x \<noteq> CHR 0x0A) r) \<le> length cs"
    using length_dropWhile_le [of "\<lambda>x. x \<noteq> CHR 0x0A" r] by simp
  then show "(drop 1 (dropWhile (\<lambda>x. x \<noteq> CHR 0x0A) r), c # cs) \<in> measure length"
    by simp
next
  fix c :: char and cs r :: string
  assume "r = drop 2 cs"
  then show "(r, c # cs) \<in> measure length" by simp
next
  fix c :: char and cs :: string
  show "(cs, c # cs) \<in> measure length" by simp
qed

text \<open>
  \<open>eval\<close> and the two pandas conversions are parameters. \<open>eval(query)\<close> runs with the
  caller's \<open>df\<close> in scope and may change it in place, also when it raises in the end:
  \<open>eval\<close> gives what the evaluation yields (a frame, a value with \<open>to_frame\<close>, any other
  value, or the exception raised) together with the frame that \<open>df\<close> names afterwards.
  The conversions give the frame they build or the exception they raise.
\<close>

datatype 'v query_value = Frame dataframe | Series 'v | Plain 'v

record 'v pandas =
  eval :: "string \<Rightarrow> dataframe \<Rightarrow> (py_error + 'v query_value) \<times> dataframe"
  to_frame :: "'v \<Rightarrow> py_error + dataframe"
  DataFrame :: "'v \<Rightarrow> py_error + dataframe"

definition execute_pandas_query ::
  "'v pandas \<Rightarrow> dataframe \<Rightarrow> string \<Rightarrow> py_error + dataframe" where
  \<comment> \<open>the value returned or the exception that leaves the function; in the \<open>except\<close>
     branch \<open>df\<close> is the frame as the evaluation left it\<close>
  "execute_pandas_query pd df query =
     (let query = strip (strip_fences query);
          (outcome, df) = eval pd query df;
          attempt =
            (case outcome of
               Inl e \<Rightarrow> Inl e
             | Inr (Frame result) \<Rightarrow> Inr result
             | Inr (Series v) \<Rightarrow> to_frame pd v
             | Inr (Plain v) \<Rightarrow> DataFrame pd v)
      in case attempt of
           Inr result \<Rightarrow> Inr result
         | Inl e \<Rightarrow> if is_Exception e then Inr (head df 10) else Inl e)"

section \<open>Chart Selector and Renderer\<close>

text \<open>
  What a backend draws is the data handed to its plotting call: one pair per bar
  (position on the axis, height) or per pie category (label, weight). Titles, colours
  and sizes are left out. Whether a plotting call raises is a parameter, as is whether
  Plotly was imported.
\<close>

datatype drawing = Bar "(cell \<times> cell) list" | Pie "(cell \<times> cell) list" | Blank

datatype backend = Plotly | Matplotlib

record chart =
  backend :: backend
  kind :: string
  drawing :: drawing
  path :: string

record renderer =
  PLOTLY_AVAILABLE :: bool
  plotly_renders :: "drawing \<Rightarrow> bool"
  matplotlib_renders :: "drawing \<Rightarrow> bool"

definition determine_chart_type :: "string \<Rightarrow> string" where
  \<comment> \<open>\<open>answer\<close> is what \<open>ai(prompt)\<close> returns\<close>
  "determine_chart_type answer =
     (let response = lower (strip answer) in
      if response = ''bar'' \<or> response = ''pie'' then response else ''bar'')"

definition xy :: "nat \<Rightarrow> nat \<Rightarrow> dataframe \<Rightarrow> (cell \<times> cell) list" where
  "xy x y df = map (\<lambda>r. (r ! x, r ! y)) (rows df)"

fun position :: "'a \<Rightarrow> 'a list \<Rightarrow> nat" where
  "position a [] = 0"
| "position a (b # bs) = (if a = b then 0 else Suc (position a bs))"

definition add_index :: "dataframe \<Rightarrow> dataframe" where
  \<comment> \<open>\<open>df['Index'] = range(len(df))\<close>: a column of that label is replaced, otherwise the
     column is added last\<close>
  "add_index df =
     (let labels = map fst (columns df);
          i = position ''Index'' labels;
          values = map (\<lambda>k. Num (int k)) [0 ..< length (rows df)]
      in if ''Index'' \<in> set labels
         then df\<lparr>columns := (columns df)[i := (''Index'', Numeric)],
                 rows := map (\<lambda>(r, v). r[i := v]) (zip (rows df) values)\<rparr>
         else df\<lparr>columns := columns df @ [(''Index'', Numeric)],
                 rows := map (\<lambda>(r, v). r @ [v]) (zip (rows df) values)\<rparr>)"

definition create_enhanced_matplotlib_chart ::
  "renderer \<Rightarrow> dataframe \<Rightarrow> string \<Rightarrow> string \<Rightarrow> string option \<Rightarrow> string
     \<Rightarrow> py_error + chart" where
  \<comment> \<open>\<open>answer\<close> is what the classifier's \<open>ai\<close> call returns, should it be made\<close>
  "create_enhanced_matplotlib_chart rd df question chart_path chart_type answer =
     (let chart_type = (case chart_type of None \<Rightarrow> determine_chart_type answer | Some t \<Rightarrow> t);
          plot =
            (if length (columns df) \<ge> 2 then
               (if chart_type = ''bar'' then Bar (xy 0 1 df)
                else if chart_type = ''pie'' then
                  (if snd (columns df ! 1) = Numeric
                   then Pie (xy 0 1 (nlargest df 8 1))
                   else Pie (map (\<lambda>r. (r ! 0, Num 1)) (rows (head df 8))))
                else Blank)
             else Blank)
      in if matplotlib_renders rd plot
         then Inr \<lparr>backend = Matplotlib, kind = chart_type, drawing = plot,
                   path = chart_path\<rparr>
         else Inl OtherException)"

definition create_plotly_chart ::
  "renderer \<Rightarrow> dataframe \<Rightarrow> string \<Rightarrow> string \<Rightarrow> string option \<Rightarrow> string
     \<Rightarrow> py_error + chart" where
  "create_plotly_chart rd df question chart_path chart_type answer =
     (if \<not> PLOTLY_AVAILABLE rd
      then create_enhanced_matplotlib_chart rd df question chart_path None answer
      else
        let chart_type =
              (if contains (lower question) ''slide 3'' \<or> contains chart_path ''chart_3''
               then Some ''pie''
               else if contains (lower question) ''slide 4'' \<or> contains chart_path ''chart_4''
               then Some ''bar''
               else chart_type);
            prepared =
              (if length (columns df) \<ge> 2 then Inr (df, 0, 1)
               else if columns df = [] then Inl IndexError
               else (let df = add_index df in
                     Inr (df, position ''Index'' (map fst (columns df)), 0)))
        in case prepared of
             Inl e \<Rightarrow> Inl e
           | Inr (df, x_col, y_col) \<Rightarrow>
               (let df_sample = (if length (rows df) > 25 then head df 25 else df);
                    fig =
                      (if chart_type = Some ''bar''
                       then Some (''bar'', Bar (xy x_col y_col df_sample))
                       else if chart_type = Some ''pie'' then
                         (let top_data =
                                (if snd (columns df_sample ! y_col) = Numeric
                                 then nlargest df_sample 8 y_col
                                 else head df_sample 8)
                          in Some (''pie'', Pie (xy x_col y_col top_data)))
                       else None)
                in case fig of
                     Some (t, plot) \<Rightarrow>
                       if plotly_renders rd plot
                       then Inr \<lparr>backend = Plotly, kind = t, drawing = plot,
                                 path = chart_path\<rparr>
                       else create_enhanced_matplotlib_chart rd df_sample question chart_path
                              chart_type answer
                   | None \<Rightarrow>
                       create_enhanced_matplotlib_chart rd df_sample question chart_path
                         chart_type answer))"

definition generate_chart ::
  "renderer \<Rightarrow> dataframe \<Rightarrow> string \<Rightarrow> string \<Rightarrow> string \<Rightarrow> string \<Rightarrow> py_error + chart" where
  \<comment> \<open>\<open>answer\<close> is the classifier's answer here, \<open>answer'\<close> its answer to a second call\<close>
  "generate_chart rd df question output_path answer answer' =
     create_plotly_chart rd df question output_path (Some (determine_chart_type answer))
       answer'"

definition encoded :: "drawing \<Rightarrow> (cell \<times> cell) list" where
  \<comment> \<open>the data a drawing encodes\<close>
  "encoded d = (case d of Bar ps \<Rightarrow> ps | Pie ps \<Rightarrow> ps | Blank \<Rightarrow> [])"

section \<open>Presentation Assembler\<close>

text \<open>
  A presentation of python-pptx: the number of its slide layouts and its slides, each a
  list of the shapes that \<open>create_chart_slide\<close> adds, in the order they are added (the
  placeholders a slide inherits from its layout are left out). A shape keeps its place
  as the four percentages (left, top, width, height) of \<open>SlideConfig\<close>; the conversion
  to inches is floating-point arithmetic and stays outside. A text box keeps the texts
  assigned to it, one entry for each assignment, with a flag for the leading bullet
  glyph, which is no Latin-1 character; how python-pptx divides an assigned text at
  line feeds is left out, and so are fonts, colours and transparency.
\<close>

type_synonym geometry = "nat \<times> nat \<times> nat \<times> nat"

datatype shape =
    TextBox geometry "(bool \<times> string) list"
  | Picture string geometry

record slide =
  layout :: nat
  shapes :: "shape list"

record presentation =
  layouts :: nat
  slides :: "slide list"

definition is_picture :: "shape \<Rightarrow> bool" where
  "is_picture s = (case s of Picture file place \<Rightarrow> True | TextBox place paragraphs \<Rightarrow> False)"

definition CHART_SLIDE_title :: geometry where
  "CHART_SLIDE_title = (5, 10, 90, 12)"

definition CHART_SLIDE_chart :: geometry where
  "CHART_SLIDE_chart = (70, 24, 45, 60)"

definition CHART_SLIDE_text :: geometry where
  "CHART_SLIDE_text = (5, 24, 40, 60)"

text \<open>
  The files: whether a path exists (\<open>os.path.exists\<close>) and whether \<open>add_picture\<close> can
  read the file at a path as an image; on a file it cannot read, \<open>add_picture\<close> raises.
\<close>

record files =
  exists :: "string \<Rightarrow> bool"
  readable_image :: "string \<Rightarrow> bool"

definition create_chart_slide ::
  "files \<Rightarrow> presentation \<Rightarrow> string \<Rightarrow> string \<Rightarrow> string list
     \<Rightarrow> (py_error + slide) \<times> presentation" where
  \<comment> \<open>the new slide or the exception raised, and the presentation after the call: the
     slide is added to it before its shapes are, so an exception of \<open>add_picture\<close> leaves
     a slide with the title box alone\<close>
  "create_chart_slide fs prs title_text chart_path bullet_points =
     (if layouts prs \<le> 5 then (Inl IndexError, prs)
      else
        let title_box = TextBox CHART_SLIDE_title [(False, title_text)];
            text_box = TextBox CHART_SLIDE_text
              (if bullet_points \<noteq> [] then map (\<lambda>bullet. (True, bullet)) bullet_points
               else [(False, [])])
        in if exists fs chart_path then
             (if readable_image fs chart_path then
                (let new_slide =
                       \<lparr>layout = 5,
                        shapes = [title_box, Picture chart_path CHART_SLIDE_chart, text_box]\<rparr>
                 in (Inr new_slide, prs\<lparr>slides := slides prs @ [new_slide]\<rparr>))
              else (Inl OtherException,
                    prs\<lparr>slides := slides prs @ [\<lparr>layout = 5, shapes = [title_box]\<rparr>]\<rparr>))
           else
             (let new_slide = \<lparr>layout = 5, shapes = [title_box, text_box]\<rparr>
              in (Inr new_slide, prs\<lparr>slides := slides prs @ [new_slide]\<rparr>)))"

text \<open>
  The template folder: the paths \<open>glob.glob\<close> finds for \<open>*.pptx\<close> in a folder, and what
  \<open>Presentation(path)\<close> loads, \<open>None\<close> when loading or clearing the slides raises.
  \<open>os.makedirs\<close> is taken to succeed.
\<close>

record folder =
  glob :: "string \<Rightarrow> string list"
  Presentation :: "string \<Rightarrow> presentation option"

definition blank_presentation :: presentation where
  \<comment> \<open>\<open>Presentation()\<close>: the built-in default, with its 11 layouts and no slide\<close>
  "blank_presentation = \<lparr>layouts = 11, slides = []\<rparr>"

definition stem :: "string \<Rightarrow> string" where
  \<comment> \<open>\<open>Path(p).stem\<close> on a POSIX path: the last component without its last suffix\<close>
  "stem p =
     (let name = rev (takeWhile (\<lambda>c. c \<noteq> CHR ''/'') (rev p));
          i = rfind name (CHR ''.'')
      in if 0 < i \<and> i < int (length name) - 1 then take (nat i) name else name)"

definition replace_char :: "char \<Rightarrow> char \<Rightarrow> string \<Rightarrow> string" where
  "replace_char a b s = map (\<lambda>c. if c = a then b else c) s"

definition template_key :: "string \<Rightarrow> string" where
  \<comment> \<open>\<open>Path(pptx_file).stem.lower().replace(" ", "_").replace("-", "_")\<close>\<close>
  "template_key pptx_file =
     replace_char (CHR ''-'') (CHR ''_'')
       (replace_char (CHR '' '') (CHR ''_'') (lower (stem pptx_file)))"

definition scan_pptx_templates :: "folder \<Rightarrow> string \<Rightarrow> (string \<times> string option) list" where
  "scan_pptx_templates fd templates_folder =
     (let template_files =
            foldl (\<lambda>d pptx_file. setitem d (template_key pptx_file) (Some pptx_file)) []
              (glob fd templates_folder)
      in if template_files = [] then [(''default'', None)] else template_files)"

definition load_pptx_template :: "folder \<Rightarrow> string \<Rightarrow> string \<Rightarrow> presentation" where
  "load_pptx_template fd template_name templates_folder =
     (let available_templates = scan_pptx_templates fd templates_folder;
          template_name = lower template_name
      in case map_of available_templates template_name of
           Some (Some file) \<Rightarrow>
             (if file = [] then blank_presentation
              else case Presentation fd file of
                     Some prs \<Rightarrow> prs\<lparr>slides := []\<rparr>
                   | None \<Rightarrow> blank_presentation)
         | _ \<Rightarrow> blank_presentation)"

section \<open>Example inputs\<close>

definition example_analysis :: analysis_result where
  "example_analysis =
     \<lparr>summary = ''Sales rose.'', original_question = ''Which region sells the most?''\<rparr>"

definition two_line_answer :: string where
  "two_line_answer = ''Revenue rose sharply in the third quarter'' @ [CHR 0x0A]
                       @ ''- Costs fell steadily across every region''"

definition one_bullet_slide :: dict where
  "one_bullet_slide =
     [(''slide_no'', JInt 1), (''title'', JStr ''Summary''), (''type'', JStr ''title''),
      (''content'', JArr [JStr ''One insight''])]"

definition empty_outline_slide :: dict where
  "empty_outline_slide =
     [(''slide_no'', JInt 5), (''title'', JStr ''Next steps''), (''type'', JStr ''content''),
      (''content'', JArr [])]"

definition empty_slides_answer :: string where
  \<open>empty_slides_answer = ''{"slides": []}''\<close>

definition failing_pandas :: "unit pandas" where
  \<comment> \<open>every text is a syntax error\<close>
  "failing_pandas =
     \<lparr>eval = (\<lambda>query df. (Inl SyntaxError, df)),
      to_frame = (\<lambda>v. Inl TypeError),
      DataFrame = (\<lambda>v. Inl TypeError)\<rparr>"

definition exiting_pandas :: "unit pandas" where
  "exiting_pandas = failing_pandas\<lparr>eval := (\<lambda>query df. (Inl SystemExit, df))\<rparr>"

definition dropping_query :: string where
  "dropping_query = ''df.drop(df.index[:5], inplace=True).head()''"

definition dropping_pandas :: "unit pandas" where
  \<comment> \<open>reads \<open>dropping_query\<close> as Python does: \<open>drop\<close> removes the first 5 rows of \<open>df\<close> in
     place and returns \<open>None\<close>, on which \<open>.head()\<close> raises AttributeError\<close>
  "dropping_pandas =
     failing_pandas\<lparr>eval := (\<lambda>query df.
        if query = dropping_query then (Inl AttributeError, df\<lparr>rows := drop 5 (rows df)\<rparr>)
        else (Inl SyntaxError, df))\<rparr>"

definition sales_frame :: dataframe where
  \<comment> \<open>26 rows; row \<open>k\<close> (from 0) has the value \<open>k + 1\<close> in its second column\<close>
  "sales_frame =
     \<lparr>columns = [(''Id'', Numeric), (''Sales'', Numeric)],
      rows = map (\<lambda>k. [Num (int k), Num (int k + 1)]) [0 ..< 26]\<rparr>"

definition plotly_renderer :: renderer where
  "plotly_renderer =
     \<lparr>PLOTLY_AVAILABLE = True, plotly_renders = (\<lambda>plot. True),
      matplotlib_renders = (\<lambda>plot. True)\<rparr>"

definition matplotlib_only :: renderer where
  "matplotlib_only = plotly_renderer\<lparr>PLOTLY_AVAILABLE := False\<rparr>"

definition region_frame :: dataframe where
  "region_frame =
     \<lparr>columns = [(''Region'', Object), (''Sales'', Numeric)],
      rows = [[Txt ''North'', Num 5], [Txt ''South'', Num 9], [Txt ''East'', Num 7]]\<rparr>"

definition no_files :: files where
  "no_files = \<lparr>exists = (\<lambda>file. False), readable_image = (\<lambda>file. False)\<rparr>"

definition text_file_at_chart_path :: files where
  \<comment> \<open>a file that is no image lies at \<open>charts/chart_3.png\<close>\<close>
  "text_file_at_chart_path =
     \<lparr>exists = (\<lambda>file. file = ''charts/chart_3.png''), readable_image = (\<lambda>file. False)\<rparr>"

definition example_folder :: folder where
  "example_folder =
     \<lparr>glob = (\<lambda>templates_folder.
               [''templates/Corporate Blue.pptx'', ''templates/broken.pptx'']),
      Presentation = (\<lambda>file.
               if file = ''templates/Corporate Blue.pptx''
               then Some \<lparr>layouts = 6, slides = [\<lparr>layout = 0, shapes = []\<rparr>]\<rparr>
               else None)\<rparr>"

section \<open>Dictionaries\<close>

lemma map_of_setitem_same: "map_of (setitem d k v) k = Some v"
  by (induction d k v rule: setitem.induct) auto

lemma map_of_setitem_other: "k' \<noteq> k \<Longrightarrow> map_of (setitem d k v) k' = map_of d k'"
  by (induction d k v rule: setitem.induct) auto

section \<open>Properties of the Content Enhancer\<close>

lemma two_lines_usable:
  "enhanced_points two_line_answer
     = [''Revenue rose sharply in the third quarter'',
        ''Costs fell steadily across every region'']"
  by code_simp

lemma short_line_unusable: "enhanced_points ''1. N/A'' = []"
  by code_simp

text \<open>
  Claim C2, as amended. A slide with a title, a type and an outline of \<open>N \<ge> 1\<close> bullets
  comes back from \<open>enhance_slide_content\<close> with between 1 and 4 bullets. When the answer
  has usable lines (after stripping bullet glyphs and numbering and dropping lines of at
  most 10 characters), the bullets are the first 4 of them, so their number is the
  smaller of 4 and the number of usable lines, whatever \<open>N\<close> is. When no line is
  usable, they are the first \<open>min N 4\<close> bullets of the outline. The other entries of
  the slide are unchanged.
\<close>

theorem enhance_slide_content_bullets:
  assumes title: "map_of slide ''title'' = Some t"
      and type: "map_of slide ''type'' = Some ty"
      and content: "map_of slide ''content'' = Some (JArr outline)"
      and nonempty: "outline \<noteq> []"
  shows "\<exists>slide' bs.
           enhance_slide_content slide analysis answer = Inr slide'
         \<and> map_of slide' ''content'' = Some (JArr bs)
         \<and> 1 \<le> length bs \<and> length bs \<le> 4
         \<and> (enhanced_points answer \<noteq> [] \<longrightarrow>
              bs = map JStr (take 4 (enhanced_points answer))
            \<and> length bs = min (length (enhanced_points answer)) 4)
         \<and> (enhanced_points answer = [] \<longrightarrow>
              bs = take (min (length outline) 4) outline)
         \<and> (\<forall>k. k \<noteq> ''content'' \<longrightarrow> map_of slide' k = map_of slide k)"
proof -
  let ?ps = "enhanced_points answer"
  let ?bs = "if ?ps \<noteq> [] then map JStr (take 4 ?ps) else take 4 outline"
  let ?slide' = "setitem slide ''content'' (JArr ?bs)"
  have run: "enhance_slide_content slide analysis answer = Inr ?slide'"
    using title type content
    by (simp add: enhance_slide_content_def get_default_def getitem_def py_len_def
        head_slice_def)
  have stored: "map_of ?slide' ''content'' = Some (JArr ?bs)"
    by (rule map_of_setitem_same)
  have lower: "1 \<le> length ?bs"
  proof (cases "?ps = []")
    case True
    then show ?thesis using nonempty by (cases outline) simp_all
  next
    case False
    then show ?thesis by (cases ?ps) simp_all
  qed
  have upper: "length ?bs \<le> 4"
    by simp
  have usable: "?ps \<noteq> [] \<longrightarrow> ?bs = map JStr (take 4 ?ps) \<and> length ?bs = min (length ?ps) 4"
    by simp
  have unusable: "?ps = [] \<longrightarrow> ?bs = take (min (length outline) 4) outline"
    by (simp add: min_def)
  have others: "\<forall>k. k \<noteq> ''content'' \<longrightarrow> map_of ?slide' k = map_of slide k"
    by (simp add: map_of_setitem_other)
  from run stored lower upper usable unusable others show ?thesis
    by blast
qed

theorem enhance_slide_content_bullets_witness:
  "\<exists>slide'. enhance_slide_content one_bullet_slide example_analysis two_line_answer = Inr slide'
     \<and> map_of slide' ''content''
         = Some (JArr [JStr ''Revenue rose sharply in the third quarter'',
                       JStr ''Costs fell steadily across every region''])"
proof -
  have title: "map_of one_bullet_slide ''title'' = Some (JStr ''Summary'')"
    by (simp add: one_bullet_slide_def)
  have type: "map_of one_bullet_slide ''type'' = Some (JStr ''title'')"
    by (simp add: one_bullet_slide_def)
  have content: "map_of one_bullet_slide ''content'' = Some (JArr [JStr ''One insight''])"
    by (simp add: one_bullet_slide_def)
  have nonempty: "[JStr ''One insight''] \<noteq> []"
    by simp
  from enhance_slide_content_bullets [OF title type content nonempty,
      of example_analysis two_line_answer]
  show ?thesis
    unfolding two_lines_usable by auto
qed

text \<open>
  Claim C2 as stated fails: an outline of one bullet and an answer of two usable lines
  give two bullets, more than \<open>min 1 4\<close>.
\<close>

theorem enhance_slide_content_more_than_outline:
  "enhance_slide_content one_bullet_slide example_analysis two_line_answer
     = Inr [(''slide_no'', JInt 1), (''title'', JStr ''Summary''), (''type'', JStr ''title''),
            (''content'', JArr [JStr ''Revenue rose sharply in the third quarter'',
                                JStr ''Costs fell steadily across every region''])]
   \<and> map_of one_bullet_slide ''content'' = Some (JArr [JStr ''One insight''])
   \<and> \<not> length [JStr ''Revenue rose sharply in the third quarter'',
                JStr ''Costs fell steadily across every region'']
         \<le> min (length [JStr ''One insight'']) 4"
  by code_simp

text \<open>
  Claim C10. A slide with a title and a type whose outline is the empty list (given or
  by the default of \<open>get\<close>) and an answer without a usable line: \<open>enhance_slide_content\<close>
  returns the slide with the empty list as its content, and raises nothing.
\<close>

theorem enhance_slide_content_empty_outline:
  assumes title: "map_of slide ''title'' = Some t"
      and type: "map_of slide ''type'' = Some ty"
      and content: "get_default slide ''content'' (JArr []) = JArr []"
      and unusable: "enhanced_points answer = []"
  shows "enhance_slide_content slide analysis answer = Inr (setitem slide ''content'' (JArr []))
       \<and> map_of (setitem slide ''content'' (JArr [])) ''content'' = Some (JArr [])"
  using assms
  by (simp add: enhance_slide_content_def getitem_def py_len_def head_slice_def
      map_of_setitem_same)

theorem enhance_slide_content_empty_outline_witness:
  "enhance_slide_content empty_outline_slide example_analysis ''1. N/A''
     = Inr (setitem empty_outline_slide ''content'' (JArr []))
   \<and> map_of (setitem empty_outline_slide ''content'' (JArr [])) ''content'' = Some (JArr [])"
proof -
  have title: "map_of empty_outline_slide ''title'' = Some (JStr ''Next steps'')"
    by (simp add: empty_outline_slide_def)
  have type: "map_of empty_outline_slide ''type'' = Some (JStr ''content'')"
    by (simp add: empty_outline_slide_def)
  have content: "get_default empty_outline_slide ''content'' (JArr []) = JArr []"
    by (simp add: empty_outline_slide_def get_default_def)
  show ?thesis
    by (rule enhance_slide_content_empty_outline [OF title type content short_line_unusable])
qed

section \<open>Properties of the Skeleton Synthesizer\<close>

lemma split_from_nonempty: "split_from sep acc s \<noteq> []"
  by (induction sep acc s rule: split_from.induct) auto

lemma split_from_two:
  "sep \<noteq> [] \<Longrightarrow> contains s sep \<Longrightarrow> 2 \<le> length (split_from sep acc s)"
proof (induction s arbitrary: acc)
  case Nil
  then show ?case by simp
next
  case (Cons c cs)
  show ?case
  proof (cases "startswith (c # cs) sep")
    case True
    have "1 \<le> length (split_from sep [] (drop (length sep - 1) cs))"
      using split_from_nonempty [of sep "[]" "drop (length sep - 1) cs"]
      by (cases "split_from sep [] (drop (length sep - 1) cs)") simp_all
    with True Cons.prems(1) show ?thesis by simp
  next
    case False
    with Cons.prems have "contains cs sep" by simp
    from Cons.IH [OF Cons.prems(1) this, of "c # acc"] False show ?thesis by simp
  qed
qed

lemma extract_json_returns: "\<exists>response. extract_json answer = Inr response"
proof (cases "contains (strip answer) ''```''")
  case True
  then have "2 \<le> length (split (strip answer) ''```'')"
    unfolding split_def by (intro split_from_two) simp_all
  then obtain a b rest where "split (strip answer) ''```'' = a # b # rest"
    by (cases "split (strip answer) ''```''"; cases "tl (split (strip answer) ''```'')") auto
  with True show ?thesis
    by (simp add: extract_json_def Let_def)
next
  case False
  then show ?thesis
    by (simp add: extract_json_def Let_def)
qed

lemma fallback_follows_template: "follows_template (fallback_skeleton analysis)"
  by (simp add: follows_template_def slides_of_def slide_field_def fallback_skeleton_def
      slide_entry_def)

lemma garbage_extracted: "extract_json ''Sorry, I cannot help.'' = Inr ''Sorry, I cannot help.''"
  by code_simp

lemma garbage_rejected: "json_loads ''Sorry, I cannot help.'' = None"
  by code_simp

text \<open>
  Claim C1, as amended. For every answer of the LLM and every behaviour of \<open>json.loads\<close>,
  the cleanup of the answer raises nothing. When \<open>json.loads\<close> fails on the cleaned
  text, \<open>create_ppt_skeleton\<close> returns the hardcoded fallback skeleton, which has exactly
  5 slides, numbered 1 to 5, of the types title, content, chart, chart, content. When
  \<open>json.loads\<close> succeeds, the value it read is returned as it is, whatever its shape.
\<close>

theorem create_ppt_skeleton_fallback:
  "\<exists>response. extract_json answer = Inr response
     \<and> (loads response = None \<longrightarrow>
          create_ppt_skeleton loads analysis answer = Inr (fallback_skeleton analysis))
     \<and> (\<forall>skeleton. loads response = Some skeleton \<longrightarrow>
          create_ppt_skeleton loads analysis answer = Inr skeleton)
     \<and> follows_template (fallback_skeleton analysis)
     \<and> (\<exists>ss. slides_of (fallback_skeleton analysis) = Some ss \<and> length ss = 5)"
proof -
  obtain response where r: "extract_json answer = Inr response"
    using extract_json_returns by blast
  have failed: "loads response = None \<longrightarrow>
          create_ppt_skeleton loads analysis answer = Inr (fallback_skeleton analysis)"
    using r by (simp add: create_ppt_skeleton_def)
  have parsed: "\<forall>skeleton. loads response = Some skeleton \<longrightarrow>
          create_ppt_skeleton loads analysis answer = Inr skeleton"
    using r by (simp add: create_ppt_skeleton_def)
  have five: "\<exists>ss. slides_of (fallback_skeleton analysis) = Some ss \<and> length ss = 5"
    by (simp add: slides_of_def slide_field_def fallback_skeleton_def)
  show ?thesis
  proof (intro exI [of _ response] conjI)
    show "extract_json answer = Inr response" by (rule r)
    show "loads response = None \<longrightarrow>
          create_ppt_skeleton loads analysis answer = Inr (fallback_skeleton analysis)"
      by (rule failed)
    show "\<forall>skeleton. loads response = Some skeleton \<longrightarrow>
          create_ppt_skeleton loads analysis answer = Inr skeleton"
      by (rule parsed)
    show "follows_template (fallback_skeleton analysis)"
      by (rule fallback_follows_template)
    show "\<exists>ss. slides_of (fallback_skeleton analysis) = Some ss \<and> length ss = 5"
      by (rule five)
  qed
qed

theorem create_ppt_skeleton_fallback_witness:
  "create_ppt_skeleton json_loads example_analysis ''Sorry, I cannot help.''
     = Inr (fallback_skeleton example_analysis)
   \<and> follows_template (fallback_skeleton example_analysis)"
  using create_ppt_skeleton_fallback [of "''Sorry, I cannot help.''" json_loads example_analysis]
  unfolding garbage_extracted by (auto simp: garbage_rejected)

text \<open>
  Claim C1 as stated fails on valid JSON: the answer \<open>{"slides": []}\<close> parses, and the
  skeleton returned has no slide.
\<close>

theorem create_ppt_skeleton_not_enforced:
  "create_ppt_skeleton json_loads example_analysis empty_slides_answer
     = Inr (JObj [(''slides'', JArr [])])
   \<and> slides_of (JObj [(''slides'', JArr [])]) = Some []
   \<and> \<not> follows_template (JObj [(''slides'', JArr [])])"
  by code_simp

section \<open>Properties of the Query Executor\<close>

lemma head_rows: "rows (head df n) = take n (rows df)"
  by (simp add: head_def)

lemma head_columns: "columns (head df n) = columns df"
  by (simp add: head_def)

text \<open>
  Claim C3, as amended. Whenever evaluating the cleaned query text raises an exception
  of a class derived from \<open>Exception\<close> (a syntax error, a missing column, a type error,
  ...), \<open>execute_pandas_query\<close> raises nothing and returns the first 10 rows of the
  dataset as the evaluation left it: \<open>min 10 n\<close> rows for \<open>n\<close> rows left, in their order,
  with the columns left. When the evaluation has not changed the dataset, these are the
  first 10 rows and the columns of the original dataset.
\<close>

theorem execute_pandas_query_fallback:
  assumes raises: "eval pd (strip (strip_fences query)) df = (Inl e, df')"
      and caught: "is_Exception e"
  shows "execute_pandas_query pd df query = Inr (head df' 10)
       \<and> rows (head df' 10) = take 10 (rows df')
       \<and> length (rows (head df' 10)) = min 10 (length (rows df'))
       \<and> columns (head df' 10) = columns df'
       \<and> (df' = df \<longrightarrow>
            execute_pandas_query pd df query = Inr (head df 10)
          \<and> rows (head df 10) = take 10 (rows df)
          \<and> columns (head df 10) = columns df)"
  using raises caught
  by (simp add: execute_pandas_query_def head_rows head_columns min.commute)

theorem execute_pandas_query_fallback_witness:
  "execute_pandas_query failing_pandas sales_frame ''df.groupby('' = Inr (head sales_frame 10)
   \<and> length (rows (head sales_frame 10)) = 10
   \<and> columns (head sales_frame 10) = [(''Id'', Numeric), (''Sales'', Numeric)]"
proof -
  have raises: "eval failing_pandas (strip (strip_fences ''df.groupby('')) sales_frame
                  = (Inl SyntaxError, sales_frame)"
    by (simp add: failing_pandas_def)
  have caught: "is_Exception SyntaxError"
    by (simp add: is_Exception_def)
  from execute_pandas_query_fallback [OF raises caught]
  show ?thesis
    by (simp add: sales_frame_def)
qed

text \<open>
  Claim C3 as stated fails on a query that changes \<open>df\<close> in place before it raises: after
  the first 5 of 26 rows are dropped, the rows returned are rows 5 to 14 of the original
  dataset, not its first 10 rows.
\<close>

theorem execute_pandas_query_changed_frame:
  "execute_pandas_query dropping_pandas sales_frame dropping_query
     = Inr \<lparr>columns = [(''Id'', Numeric), (''Sales'', Numeric)],
            rows = map (\<lambda>k. [Num (int k), Num (int k + 1)]) [5 ..< 15]\<rparr>
   \<and> head sales_frame 10
     = \<lparr>columns = [(''Id'', Numeric), (''Sales'', Numeric)],
        rows = map (\<lambda>k. [Num (int k), Num (int k + 1)]) [0 ..< 10]\<rparr>
   \<and> map (\<lambda>k. [Num (int k), Num (int k + 1)]) [5 ..< 15]
     \<noteq> map (\<lambda>k. [Num (int k), Num (int k + 1)]) [0 ..< 10]"
  by code_simp

text \<open>
  The handler is \<open>except Exception\<close>: \<open>SystemExit\<close>, which a query text such as
  \<open>exit()\<close> raises, is no \<open>Exception\<close> and goes through to the caller.
\<close>

lemma execute_pandas_query_exit:
  "execute_pandas_query exiting_pandas sales_frame ''exit()'' = Inl SystemExit"
  by (simp add: execute_pandas_query_def exiting_pandas_def failing_pandas_def is_Exception_def)

section \<open>Properties of the Chart Selector and Renderer\<close>

lemma sample_is_head: "(if length (rows df) > 25 then head df 25 else df) = head df 25"
  by (simp add: head_def)

lemma length_xy: "length (xy x y df) = length (rows df)"
  by (simp add: xy_def)

lemma nlargest_rows: "rows (nlargest df n y) = take n (sort_key (\<lambda>r. - num (r ! y)) (rows df))"
  by (simp add: nlargest_def)

lemma nlargest_columns: "columns (nlargest df n y) = columns df"
  by (simp add: nlargest_def)

lemma nlargest_largest:
  "\<exists>rest. mset (rows (nlargest df n y) @ rest) = mset (rows df)
        \<and> (\<forall>a \<in> set (rows (nlargest df n y)). \<forall>b \<in> set rest. num (b ! y) \<le> num (a ! y))"
proof -
  let ?f = "\<lambda>r. - num (r ! y)"
  let ?s = "sort_key ?f (rows df)"
  have split: "take n ?s @ drop n ?s = ?s"
    by simp
  have "sorted (map ?f ?s)"
    by (rule sorted_sort_key)
  then have "sorted (map ?f (take n ?s) @ map ?f (drop n ?s))"
    by (metis split map_append)
  then have order: "\<forall>a \<in> set (take n ?s). \<forall>b \<in> set (drop n ?s). ?f a \<le> ?f b"
    by (auto simp: sorted_append)
  have "mset (take n ?s @ drop n ?s) = mset (rows df)"
    by (simp only: split mset_sort)
  with order show ?thesis
    unfolding nlargest_rows by (intro exI [of _ "drop n ?s"]) auto
qed

lemma matplotlib_chart_cases:
  assumes "create_enhanced_matplotlib_chart rd df question chart_path (Some t) answer = Inr ch"
  shows "kind ch = t \<and> backend ch = Matplotlib
       \<and> drawing ch =
           (if length (columns df) \<ge> 2 then
              (if t = ''bar'' then Bar (xy 0 1 df)
               else if t = ''pie'' then
                 (if snd (columns df ! 1) = Numeric
                  then Pie (xy 0 1 (nlargest df 8 1))
                  else Pie (map (\<lambda>r. (r ! 0, Num 1)) (rows (head df 8))))
               else Blank)
            else Blank)"
  using assms
  by (auto simp: create_enhanced_matplotlib_chart_def Let_def split: if_splits)

lemma matplotlib_pie_cap:
  assumes "create_enhanced_matplotlib_chart rd df question chart_path chart_type answer = Inr ch"
      and "drawing ch = Pie cats"
  shows "length cats \<le> 8"
  using assms
  by (auto simp: create_enhanced_matplotlib_chart_def Let_def length_xy nlargest_rows head_rows
           split: if_splits option.splits)

lemma create_plotly_chart_cases:
  assumes avail: "PLOTLY_AVAILABLE rd"
      and run: "create_plotly_chart rd df question chart_path chart_type answer = Inr ch"
      and ct: "ct = (if contains (lower question) ''slide 3'' \<or> contains chart_path ''chart_3''
                     then Some ''pie''
                     else if contains (lower question) ''slide 4'' \<or> contains chart_path ''chart_4''
                     then Some ''bar''
                     else chart_type)"
  shows "(\<exists>d. ch = \<lparr>backend = Plotly, kind = ''bar'', drawing = Bar d, path = chart_path\<rparr>
              \<and> ct = Some ''bar'' \<and> length d \<le> 25
              \<and> (2 \<le> length (columns df) \<longrightarrow> d = xy 0 1 (head df 25)))
       \<or> (\<exists>d. ch = \<lparr>backend = Plotly, kind = ''pie'', drawing = Pie d, path = chart_path\<rparr>
              \<and> ct = Some ''pie'' \<and> length d \<le> 8
              \<and> (2 \<le> length (columns df) \<longrightarrow>
                    d = xy 0 1 (if snd (columns df ! 1) = Numeric
                                then nlargest (head df 25) 8 1 else head (head df 25) 8)))
       \<or> (\<exists>df'. create_enhanced_matplotlib_chart rd df' question chart_path ct answer = Inr ch
              \<and> length (rows df') \<le> 25
              \<and> (2 \<le> length (columns df) \<longrightarrow> df' = head df 25))"
proof -
  define prepared where "prepared =
    (if length (columns df) \<ge> 2 then Inr (df, 0, 1)
     else if columns df = [] then Inl IndexError
     else (let df = add_index df in
           Inr (df, position ''Index'' (map fst (columns df)), 0 :: nat)))"
  have unfolded: "create_plotly_chart rd df question chart_path chart_type answer =
    (case prepared of
       Inl e \<Rightarrow> Inl e
     | Inr (df1, x_col, y_col) \<Rightarrow>
         (let df_sample = head df1 25;
              fig = (if ct = Some ''bar'' then Some (''bar'', Bar (xy x_col y_col df_sample))
                     else if ct = Some ''pie'' then
                       Some (''pie'', Pie (xy x_col y_col
                         (if snd (columns df_sample ! y_col) = Numeric
                          then nlargest df_sample 8 y_col else head df_sample 8)))
                     else None)
          in case fig of
               Some (t, plot) \<Rightarrow>
                 if plotly_renders rd plot
                 then Inr \<lparr>backend = Plotly, kind = t, drawing = plot, path = chart_path\<rparr>
                 else create_enhanced_matplotlib_chart rd df_sample question chart_path ct answer
             | None \<Rightarrow>
                 create_enhanced_matplotlib_chart rd df_sample question chart_path ct answer))"
    using avail
    by (simp only: create_plotly_chart_def prepared_def ct Let_def sample_is_head if_False
        simp_thms)
  from run unfolded obtain df1 x_col y_col where prep: "prepared = Inr (df1, x_col, y_col)"
    by (cases prepared) auto
  have two: "2 \<le> length (columns df) \<Longrightarrow> df1 = df \<and> x_col = 0 \<and> y_col = 1"
    using prep by (simp add: prepared_def)
  let ?sample = "head df1 25"
  have short: "length (rows ?sample) \<le> 25"
    by (simp add: head_rows)
  let ?top = "if snd (columns ?sample ! y_col) = Numeric
              then nlargest ?sample 8 y_col else head ?sample 8"
  have top: "length (xy x_col y_col ?top) \<le> 8"
    by (simp add: length_xy nlargest_rows head_rows)
  consider (bar) "ct = Some ''bar''" "plotly_renders rd (Bar (xy x_col y_col ?sample))"
    | (pie) "ct = Some ''pie''" "plotly_renders rd (Pie (xy x_col y_col ?top))"
    | (fallback) "create_enhanced_matplotlib_chart rd ?sample question chart_path ct answer = Inr ch"
    using run unfolding unfolded prep
    by (auto simp: Let_def split: if_splits)
  then show ?thesis
  proof cases
    case bar
    then have "ch = \<lparr>backend = Plotly, kind = ''bar'', drawing = Bar (xy x_col y_col ?sample),
                      path = chart_path\<rparr>"
      using run unfolding unfolded prep by (simp add: Let_def)
    then show ?thesis
      using bar short two by (auto simp: length_xy)
  next
    case pie
    then have "ch = \<lparr>backend = Plotly, kind = ''pie'', drawing = Pie (xy x_col y_col ?top),
                      path = chart_path\<rparr>"
      using run unfolding unfolded prep by (simp add: Let_def)
    then show ?thesis
      using pie top two by (auto simp: head_columns)
  next
    case fallback
    then show ?thesis
      using short two by blast
  qed
qed

lemma matplotlib_encoded_le:
  assumes "create_enhanced_matplotlib_chart rd df question chart_path chart_type answer = Inr ch"
  shows "length (encoded (drawing ch)) \<le> length (rows df)"
  using assms
  by (auto simp: create_enhanced_matplotlib_chart_def Let_def encoded_def length_xy nlargest_rows
           head_rows split: if_splits option.splits)

lemma plotly_available_at_most_25:
  assumes "PLOTLY_AVAILABLE rd"
      and "create_plotly_chart rd df question chart_path chart_type answer = Inr ch"
  shows "length (encoded (drawing ch)) \<le> 25"
  using create_plotly_chart_cases [OF assms refl]
proof (elim disjE exE conjE)
  fix d
  assume "ch = \<lparr>backend = Plotly, kind = ''bar'', drawing = Bar d, path = chart_path\<rparr>"
    and "length d \<le> 25"
  then show ?thesis by (simp add: encoded_def)
next
  fix d
  assume "ch = \<lparr>backend = Plotly, kind = ''pie'', drawing = Pie d, path = chart_path\<rparr>"
    and "length d \<le> 8"
  then show ?thesis by (simp add: encoded_def)
next
  fix df' ct
  assume "create_enhanced_matplotlib_chart rd df' question chart_path ct answer = Inr ch"
    and "length (rows df') \<le> 25"
  then show ?thesis
    using matplotlib_encoded_le by fastforce
qed

lemma create_plotly_chart_forced:
  assumes avail: "PLOTLY_AVAILABLE rd"
      and run: "create_plotly_chart rd df question chart_path chart_type answer = Inr ch"
      and forced: "(if contains (lower question) ''slide 3'' \<or> contains chart_path ''chart_3''
                    then Some ''pie''
                    else if contains (lower question) ''slide 4'' \<or> contains chart_path ''chart_4''
                    then Some ''bar''
                    else chart_type) = Some t"
      and t: "t = ''pie'' \<or> t = ''bar''"
  shows "kind ch = t
       \<and> (\<forall>ps. drawing ch \<noteq> (if t = ''pie'' then Bar ps else Pie ps))
       \<and> (2 \<le> length (columns df) \<longrightarrow>
            (\<exists>ps. drawing ch = (if t = ''pie'' then Pie ps else Bar ps)))"
  using create_plotly_chart_cases [OF avail run forced [symmetric]]
proof (elim disjE exE conjE)
  fix d
  assume "ch = \<lparr>backend = Plotly, kind = ''bar'', drawing = Bar d, path = chart_path\<rparr>"
    and "Some t = Some ''bar''"
  then show ?thesis by simp
next
  fix d
  assume "ch = \<lparr>backend = Plotly, kind = ''pie'', drawing = Pie d, path = chart_path\<rparr>"
    and "Some t = Some ''pie''"
  then show ?thesis by simp
next
  fix df'
  assume fallback: "create_enhanced_matplotlib_chart rd df' question chart_path (Some t) answer
                      = Inr ch"
    and sample: "2 \<le> length (columns df) \<longrightarrow> df' = head df 25"
  from matplotlib_chart_cases [OF fallback] t sample show ?thesis
    by (auto simp: head_columns)
qed

lemma slide_3_chart:
  "generate_chart plotly_renderer region_frame
     ''Which region sells the most? - Primary Data Insights'' ''charts/chart_3.png''
     ''bar'' ''bar''
   = Inr \<lparr>backend = Plotly, kind = ''pie'',
          drawing = Pie [(Txt ''South'', Num 9), (Txt ''East'', Num 7), (Txt ''North'', Num 5)],
          path = ''charts/chart_3.png''\<rparr>"
  by code_simp

lemma matplotlib_pie:
  assumes "create_enhanced_matplotlib_chart rd df question chart_path chart_type answer = Inr ch"
      and "drawing ch = Pie cats"
  shows "backend ch = Matplotlib \<and> 2 \<le> length (columns df)
       \<and> cats = (if snd (columns df ! 1) = Numeric
                  then xy 0 1 (nlargest df 8 1)
                  else map (\<lambda>r. (r ! 0, Num 1)) (rows (head df 8)))"
  using assms
  by (auto simp: create_enhanced_matplotlib_chart_def Let_def split: if_splits option.splits)

lemma slide_3_pie:
  "create_plotly_chart plotly_renderer sales_frame ''Sales by id'' ''charts/chart_3.png''
     (Some ''bar'') ''bar''
   = Inr \<lparr>backend = Plotly, kind = ''pie'',
          drawing = Pie [(Num 24, Num 25), (Num 23, Num 24), (Num 22, Num 23), (Num 21, Num 22),
                         (Num 20, Num 21), (Num 19, Num 20), (Num 18, Num 19), (Num 17, Num 18)],
          path = ''charts/chart_3.png''\<rparr>"
  by code_simp

text \<open>
  Claim C4, as amended. With Plotly available, for every table and every answer of the
  classifier: a chart that is rendered for a question containing "slide 3" (in any
  case) or a path containing "chart_3" has the type pie; a chart rendered for a
  question containing "slide 4" or a path containing "chart_4", and neither "slide 3"
  nor "chart_3", has the type bar. On a table of at least two columns the drawing is a
  pie chart, respectively a bar chart.
\<close>

theorem generate_chart_override:
  assumes avail: "PLOTLY_AVAILABLE rd"
      and run: "generate_chart rd df question output_path answer answer' = Inr ch"
  shows "(contains (lower question) ''slide 3'' \<or> contains output_path ''chart_3'' \<longrightarrow>
            kind ch = ''pie'' \<and> (\<forall>ps. drawing ch \<noteq> Bar ps)
          \<and> (2 \<le> length (columns df) \<longrightarrow> (\<exists>ps. drawing ch = Pie ps)))
       \<and> (\<not> (contains (lower question) ''slide 3'' \<or> contains output_path ''chart_3'')
          \<and> (contains (lower question) ''slide 4'' \<or> contains output_path ''chart_4'') \<longrightarrow>
            kind ch = ''bar'' \<and> (\<forall>ps. drawing ch \<noteq> Pie ps)
          \<and> (2 \<le> length (columns df) \<longrightarrow> (\<exists>ps. drawing ch = Bar ps)))"
proof -
  from run have run': "create_plotly_chart rd df question output_path
                         (Some (determine_chart_type answer)) answer' = Inr ch"
    by (simp add: generate_chart_def)
  have three: "kind ch = ''pie'' \<and> (\<forall>ps. drawing ch \<noteq> Bar ps)
          \<and> (2 \<le> length (columns df) \<longrightarrow> (\<exists>ps. drawing ch = Pie ps))"
    if "contains (lower question) ''slide 3'' \<or> contains output_path ''chart_3''"
    using create_plotly_chart_forced [OF avail run', of "''pie''"] that by simp
  have four: "kind ch = ''bar'' \<and> (\<forall>ps. drawing ch \<noteq> Pie ps)
          \<and> (2 \<le> length (columns df) \<longrightarrow> (\<exists>ps. drawing ch = Bar ps))"
    if "\<not> (contains (lower question) ''slide 3'' \<or> contains output_path ''chart_3'')
          \<and> (contains (lower question) ''slide 4'' \<or> contains output_path ''chart_4'')"
    using create_plotly_chart_forced [OF avail run', of "''bar''"] that by simp
  from three four show ?thesis
    by blast
qed

theorem generate_chart_override_witness:
  "\<exists>ch. generate_chart plotly_renderer region_frame
          ''Which region sells the most? - Primary Data Insights'' ''charts/chart_3.png''
          ''bar'' ''bar'' = Inr ch
      \<and> kind ch = ''pie'' \<and> (\<exists>ps. drawing ch = Pie ps)"
proof -
  have avail: "PLOTLY_AVAILABLE plotly_renderer"
    by (simp add: plotly_renderer_def)
  have path: "contains ''charts/chart_3.png'' ''chart_3''"
    by code_simp
  have two: "2 \<le> length (columns region_frame)"
    by (simp add: region_frame_def)
  from generate_chart_override [OF avail slide_3_chart] path two
  show ?thesis
    using slide_3_chart by blast
qed

text \<open>
  Claim C4 as stated fails where both rules apply: the test for slide 3 comes first, so
  a question that mentions slide 3 gives a pie chart on the path of chart 4.
\<close>

theorem generate_chart_slide_3_wins:
  "generate_chart plotly_renderer region_frame ''Compare slide 3 and slide 4''
     ''charts/chart_4.png'' ''bar'' ''bar''
   = Inr \<lparr>backend = Plotly, kind = ''pie'',
          drawing = Pie [(Txt ''South'', Num 9), (Txt ''East'', Num 7), (Txt ''North'', Num 5)],
          path = ''charts/chart_4.png''\<rparr>
   \<and> contains (lower ''Compare slide 3 and slide 4'') ''slide 4''
   \<and> contains ''charts/chart_4.png'' ''chart_4''
   \<and> PLOTLY_AVAILABLE plotly_renderer"
  by code_simp

text \<open>
  Claim C5, as amended. A rendered pie chart encodes at most 8 categories, in either
  backend. With Plotly available and a table of at least two columns, the categories
  come from the first 25 rows of the table: when the second column is numeric, they are
  the 8 largest of these 25 rows by that column, in descending order; otherwise they
  are the first 8 rows, and the fallback backend gives them equal weights.
\<close>

theorem pie_chart_categories:
  assumes run: "create_plotly_chart rd df question chart_path chart_type answer = Inr ch"
      and pie: "drawing ch = Pie cats"
  shows "length cats \<le> 8
       \<and> (PLOTLY_AVAILABLE rd \<and> 2 \<le> length (columns df) \<longrightarrow>
            (snd (columns df ! 1) = Numeric \<longrightarrow>
               cats = map (\<lambda>r. (r ! 0, r ! 1))
                        (take 8 (sort_key (\<lambda>r. - num (r ! 1)) (take 25 (rows df)))))
          \<and> (snd (columns df ! 1) \<noteq> Numeric \<longrightarrow>
               map fst cats = map (\<lambda>r. r ! 0) (take 8 (rows df))
             \<and> (backend ch = Matplotlib \<longrightarrow>
                  map snd cats = replicate (length cats) (Num 1))))"
proof (cases "PLOTLY_AVAILABLE rd")
  case False
  with run have "create_enhanced_matplotlib_chart rd df question chart_path None answer = Inr ch"
    by (simp add: create_plotly_chart_def)
  from matplotlib_pie_cap [OF this pie] False show ?thesis
    by simp
next
  case True
  from create_plotly_chart_cases [OF True run refl] show ?thesis
  proof (elim disjE exE conjE)
    fix d
    assume "ch = \<lparr>backend = Plotly, kind = ''bar'', drawing = Bar d, path = chart_path\<rparr>"
    with pie show ?thesis by simp
  next
    fix d
    assume ch: "ch = \<lparr>backend = Plotly, kind = ''pie'', drawing = Pie d, path = chart_path\<rparr>"
      and cap: "length d \<le> 8"
      and two: "2 \<le> length (columns df) \<longrightarrow>
                  d = xy 0 1 (if snd (columns df ! 1) = Numeric
                              then nlargest (head df 25) 8 1 else head (head df 25) 8)"
    from ch pie have "cats = d" by simp
    with ch cap two show ?thesis
      by (auto simp: xy_def nlargest_rows head_rows)
  next
    fix df'
    assume fallback: "create_enhanced_matplotlib_chart rd df' question chart_path
              (if contains (lower question) ''slide 3'' \<or> contains chart_path ''chart_3''
               then Some ''pie''
               else if contains (lower question) ''slide 4'' \<or> contains chart_path ''chart_4''
               then Some ''bar''
               else chart_type) answer = Inr ch"
      and two: "2 \<le> length (columns df) \<longrightarrow> df' = head df 25"
    from matplotlib_pie [OF fallback pie] matplotlib_pie_cap [OF fallback pie] two
    show ?thesis
      by (auto simp: xy_def nlargest_rows head_rows head_columns comp_def map_replicate_const)
  qed
qed

theorem pie_chart_categories_witness:
  "\<exists>ch cats.
     create_plotly_chart plotly_renderer sales_frame ''Sales by id'' ''charts/chart_3.png''
       (Some ''bar'') ''bar'' = Inr ch
   \<and> drawing ch = Pie cats
   \<and> length cats \<le> 8
   \<and> cats = map (\<lambda>r. (r ! 0, r ! 1))
              (take 8 (sort_key (\<lambda>r. - num (r ! 1)) (take 25 (rows sales_frame))))"
proof -
  let ?cats = "[(Num 24, Num 25), (Num 23, Num 24), (Num 22, Num 23), (Num 21, Num 22),
                (Num 20, Num 21), (Num 19, Num 20), (Num 18, Num 19), (Num 17, Num 18)]"
  let ?ch = "\<lparr>backend = Plotly, kind = ''pie'', drawing = Pie ?cats,
              path = ''charts/chart_3.png''\<rparr>"
  have pie: "drawing ?ch = Pie ?cats"
    by simp
  have avail: "PLOTLY_AVAILABLE plotly_renderer"
    by (simp add: plotly_renderer_def)
  have two: "2 \<le> length (columns sales_frame)"
    by (simp add: sales_frame_def)
  have numeric: "snd (columns sales_frame ! 1) = Numeric"
    by (simp add: sales_frame_def)
  from pie_chart_categories [OF slide_3_pie pie] avail two numeric
  have cap: "length ?cats \<le> 8"
    and largest: "?cats = map (\<lambda>r. (r ! 0, r ! 1))
                  (take 8 (sort_key (\<lambda>r. - num (r ! 1)) (take 25 (rows sales_frame))))"
    by simp_all
  show ?thesis
    by (rule exI [of _ ?ch], rule exI [of _ ?cats], intro conjI)
       (rule slide_3_pie, rule pie, rule cap, rule largest)
qed

text \<open>
  Claim C5 as stated fails on a table of more than 25 rows: the row with the largest
  value of a table of 26 rows is its last one, and the pie chart encodes the 8 largest
  of the first 25 rows instead of the 8 largest rows of the table.
\<close>

theorem pie_chart_misses_largest_row:
  "create_plotly_chart plotly_renderer sales_frame ''Sales by id'' ''charts/chart_3.png''
     (Some ''bar'') ''bar''
   = Inr \<lparr>backend = Plotly, kind = ''pie'',
          drawing = Pie [(Num 24, Num 25), (Num 23, Num 24), (Num 22, Num 23), (Num 21, Num 22),
                         (Num 20, Num 21), (Num 19, Num 20), (Num 18, Num 19), (Num 17, Num 18)],
          path = ''charts/chart_3.png''\<rparr>
   \<and> rows sales_frame ! 25 = [Num 25, Num 26]
   \<and> xy 0 1 (nlargest sales_frame 8 1)
       = [(Num 25, Num 26), (Num 24, Num 25), (Num 23, Num 24), (Num 22, Num 23),
          (Num 21, Num 22), (Num 20, Num 21), (Num 19, Num 20), (Num 18, Num 19)]"
  by code_simp

text \<open>
  Claim C6 holds where Plotly is available (\<open>plotly_available_at_most_25\<close>: both the
  primary backend and the fallback after a failure of the primary one get the first 25
  rows). Without Plotly, \<open>create_plotly_chart\<close> returns through the fallback backend
  before the cut to 25 rows: a bar chart of a table of 26 rows encodes all 26 rows.
\<close>

theorem bar_chart_without_plotly_untruncated:
  "generate_chart matplotlib_only sales_frame ''Sales by id'' ''charts/chart_4.png'' ''bar'' ''bar''
   = Inr \<lparr>backend = Matplotlib, kind = ''bar'',
          drawing = Bar (map (\<lambda>k. (Num (int k), Num (int k + 1))) [0 ..< 26]),
          path = ''charts/chart_4.png''\<rparr>
   \<and> length (encoded (Bar (map (\<lambda>k. (Num (int k), Num (int k + 1))) [0 ..< 26]))) = 26"
  by code_simp

section \<open>Properties of the Presentation Assembler\<close>

lemma map_of_template_files:
  "map_of (foldl (\<lambda>d pptx_file. setitem d (template_key pptx_file) (Some pptx_file)) d0 files) k
     = None
   \<longleftrightarrow> map_of d0 k = None \<and> k \<notin> template_key ` set files"
proof (induction files arbitrary: d0)
  case Nil
  then show ?case by simp
next
  case (Cons f files)
  have "map_of (setitem d0 (template_key f) (Some f)) k = None
          \<longleftrightarrow> map_of d0 k = None \<and> k \<noteq> template_key f"
    by (cases "k = template_key f") (simp_all add: map_of_setitem_same map_of_setitem_other)
  with Cons.IH [of "setitem d0 (template_key f) (Some f)"] show ?case
    by auto
qed

lemma scan_pptx_templates_absent:
  assumes "k \<notin> template_key ` set (glob fd templates_folder)"
  shows "map_of (scan_pptx_templates fd templates_folder) k = None
       \<or> map_of (scan_pptx_templates fd templates_folder) k = Some None"
proof -
  have "map_of (foldl (\<lambda>d pptx_file. setitem d (template_key pptx_file) (Some pptx_file)) []
                  (glob fd templates_folder)) k = None"
    using assms by (simp add: map_of_template_files)
  then show ?thesis
    by (simp add: scan_pptx_templates_def Let_def)
qed

lemma modern_absent:
  "lower ''Modern'' \<notin> template_key ` set (glob example_folder ''templates'')"
  by code_simp

lemma broken_fails:
  "map_of (scan_pptx_templates example_folder ''templates'') (lower ''Broken'')
     = Some (Some ''templates/broken.pptx'')
   \<and> Presentation example_folder ''templates/broken.pptx'' = None"
  by code_simp

text \<open>
  Claim C7, as amended. On a presentation that has the layout of index 5,
  \<open>create_chart_slide\<close> behaves by the file at the chart path at the time of the call.
  When no file exists there, it raises nothing and returns a slide without a picture,
  with the title box and the text box of the bullets. When a file exists that
  \<open>add_picture\<close> can read as an image, the slide returned holds the picture, the title
  box and the text box. When a file exists that \<open>add_picture\<close> cannot read, its exception
  goes through to the caller and no slide is returned. On a presentation with fewer than
  6 layouts the call raises IndexError, whatever the file.
\<close>

theorem create_chart_slide_outcomes:
  "(layouts prs \<le> 5 \<longrightarrow>
      create_chart_slide fs prs title_text chart_path bullet_points = (Inl IndexError, prs))
   \<and> (5 < layouts prs \<and> \<not> exists fs chart_path \<longrightarrow>
        (\<exists>new_slide.
           create_chart_slide fs prs title_text chart_path bullet_points
             = (Inr new_slide, prs\<lparr>slides := slides prs @ [new_slide]\<rparr>)
         \<and> \<not> list_ex is_picture (shapes new_slide)
         \<and> TextBox CHART_SLIDE_title [(False, title_text)] \<in> set (shapes new_slide)
         \<and> (bullet_points \<noteq> [] \<longrightarrow>
              TextBox CHART_SLIDE_text (map (\<lambda>bullet. (True, bullet)) bullet_points)
                \<in> set (shapes new_slide))))
   \<and> (5 < layouts prs \<and> exists fs chart_path \<and> readable_image fs chart_path \<longrightarrow>
        (\<exists>new_slide.
           create_chart_slide fs prs title_text chart_path bullet_points
             = (Inr new_slide, prs\<lparr>slides := slides prs @ [new_slide]\<rparr>)
         \<and> Picture chart_path CHART_SLIDE_chart \<in> set (shapes new_slide)
         \<and> TextBox CHART_SLIDE_title [(False, title_text)] \<in> set (shapes new_slide)
         \<and> (bullet_points \<noteq> [] \<longrightarrow>
              TextBox CHART_SLIDE_text (map (\<lambda>bullet. (True, bullet)) bullet_points)
                \<in> set (shapes new_slide))))
   \<and> (5 < layouts prs \<and> exists fs chart_path \<and> \<not> readable_image fs chart_path \<longrightarrow>
        (\<exists>e prs'. create_chart_slide fs prs title_text chart_path bullet_points
                    = (Inl e, prs')))"
  by (simp add: create_chart_slide_def Let_def is_picture_def)

theorem create_chart_slide_outcomes_witness:
  "create_chart_slide no_files blank_presentation ''Primary Data Insights''
     ''charts/chart_3.png'' [''Most significant patterns discovered in data'']
   = (Inr \<lparr>layout = 5,
           shapes = [TextBox CHART_SLIDE_title [(False, ''Primary Data Insights'')],
                     TextBox CHART_SLIDE_text
                       [(True, ''Most significant patterns discovered in data'')]]\<rparr>,
      \<lparr>layouts = 11,
       slides = [\<lparr>layout = 5,
                  shapes = [TextBox CHART_SLIDE_title [(False, ''Primary Data Insights'')],
                            TextBox CHART_SLIDE_text
                              [(True, ''Most significant patterns discovered in data'')]]\<rparr>]\<rparr>)"
proof -
  have layout: "5 < layouts blank_presentation"
    by (simp add: blank_presentation_def)
  have missing: "\<not> exists no_files ''charts/chart_3.png''"
    by (simp add: no_files_def)
  from create_chart_slide_outcomes [of blank_presentation no_files
      "''Primary Data Insights''" "''charts/chart_3.png''"
      "[''Most significant patterns discovered in data'']"] layout missing
  obtain new_slide where
    run: "create_chart_slide no_files blank_presentation ''Primary Data Insights''
            ''charts/chart_3.png'' [''Most significant patterns discovered in data'']
          = (Inr new_slide, blank_presentation\<lparr>slides := slides blank_presentation @ [new_slide]\<rparr>)"
     and title: "TextBox CHART_SLIDE_title [(False, ''Primary Data Insights'')]
                   \<in> set (shapes new_slide)"
    by blast
  from run show ?thesis
    by (simp add: create_chart_slide_def blank_presentation_def no_files_def Let_def)
qed

text \<open>
  Claim C7 as stated fails on a file that exists and is no image: a file exists at the
  chart path, yet no slide with the picture comes back, and the exception of
  \<open>add_picture\<close> reaches the caller; the presentation is left with a slide that has the
  title box alone.
\<close>

theorem create_chart_slide_unreadable_file:
  "create_chart_slide text_file_at_chart_path blank_presentation ''Primary Data Insights''
     ''charts/chart_3.png'' [''Most significant patterns discovered in data'']
   = (Inl OtherException,
      \<lparr>layouts = 11,
       slides = [\<lparr>layout = 5,
                  shapes = [TextBox CHART_SLIDE_title [(False, ''Primary Data Insights'')]]\<rparr>]\<rparr>)
   \<and> exists text_file_at_chart_path ''charts/chart_3.png''"
  by code_simp

text \<open>
  Claim C8. A template name whose lower-case form is the key of no file found in the
  template folder, or is the key of a file that fails to load, gives the built-in blank
  presentation; \<open>load_pptx_template\<close> returns it and raises nothing.
\<close>

theorem load_pptx_template_default:
  assumes "lower template_name \<notin> template_key ` set (glob fd templates_folder)
         \<or> (\<exists>file. map_of (scan_pptx_templates fd templates_folder) (lower template_name)
                      = Some (Some file)
                  \<and> Presentation fd file = None)"
  shows "load_pptx_template fd template_name templates_folder = blank_presentation"
  using assms
proof
  assume "lower template_name \<notin> template_key ` set (glob fd templates_folder)"
  from scan_pptx_templates_absent [OF this] show ?thesis
    by (auto simp: load_pptx_template_def Let_def)
next
  assume "\<exists>file. map_of (scan_pptx_templates fd templates_folder) (lower template_name)
                    = Some (Some file)
                \<and> Presentation fd file = None"
  then show ?thesis
    by (auto simp: load_pptx_template_def Let_def)
qed

theorem load_pptx_template_default_witness:
  "load_pptx_template example_folder ''Modern'' ''templates'' = blank_presentation
   \<and> load_pptx_template example_folder ''Broken'' ''templates'' = blank_presentation"
proof
  show "load_pptx_template example_folder ''Modern'' ''templates'' = blank_presentation"
    using modern_absent by (intro load_pptx_template_default) (rule disjI1)
  show "load_pptx_template example_folder ''Broken'' ''templates'' = blank_presentation"
    using broken_fails by (intro load_pptx_template_default) blast
qed

text \<open>
  A name that is present loads its file, cleared of its slides.
\<close>

lemma corporate_blue_loaded:
  "load_pptx_template example_folder ''Corporate_Blue'' ''templates''
     = \<lparr>layouts = 6, slides = []\<rparr>"
  by code_simp

end
